theory Spec2Isabelle
  imports Complex_Main "HOL-Library.Multiset" "HOL-Library.Sublist"
begin

section \<open>Text\<close>

text \<open>Decimal text of an integer, as \<open>str\<close> and \<open>format\<close> print it.\<close>

definition digit_char :: "nat \<Rightarrow> char" where
  "digit_char d = ''0123456789'' ! d"

function string_of_nat :: "nat \<Rightarrow> string" where
  "string_of_nat n =
     (if n < 10 then [digit_char n] else string_of_nat (n div 10) @ [digit_char (n mod 10)])"
  by pat_completeness auto
termination
  by (relation "measure id") auto

declare string_of_nat.simps [simp del]

definition string_of_int :: "int \<Rightarrow> string" where
  "string_of_int i = (if i < 0 then CHR ''-'' # string_of_nat (nat (- i)) else string_of_nat (nat i))"

text \<open>\<open>sep.join(xs)\<close> on strings.\<close>

fun str_join :: "string \<Rightarrow> string list \<Rightarrow> string" where
  "str_join sep [] = []"
| "str_join sep [x] = x"
| "str_join sep (x # y # ys) = x @ sep @ str_join sep (y # ys)"

definition tab :: string where
  "tab = [CHR 0x09]"

section \<open>The chain classifier (modules/classify_chains.py)\<close>

subsection \<open>Data model\<close>

text \<open>
  One line of the feature table, as \<open>pd.read_csv\<close> loads it. The gene column holds
  strings, chain identifiers, synteny and exon count are integers, the other columns are
  numbers. Every cell of a numeric column is taken to hold a finite number, and finite
  arithmetic on cells is exact (rounding of the 64-bit floats is not modelled).
\<close>

record feature_row =
  gene :: string
  chain_id :: int
  synt :: int
  gl_exo :: real
  loc_exo :: real
  flank_cov :: real
  exon_cover :: real
  ex_fract :: real
  intr_cover :: real
  intr_fract :: real
  chain_len :: real
  ex_num :: int
  cds_qlen :: real

text \<open>
  A table is its header (the column names) and its lines. A field of a line whose
  column is not in the header is never read: \<open>classify_chains\<close> stops with an error
  at the first access to a missing column.
\<close>

record table =
  header :: "string list"
  body :: "feature_row list"

text \<open>
  Values of the derived float columns: a finite number, plus or minus infinity, or
  not-a-number.
\<close>

datatype fval = Fin real | PInf | NInf | NaN

text \<open>Division of two numeric columns: no exception, a zero divisor gives inf or NaN.\<close>

definition np_div :: "real \<Rightarrow> real \<Rightarrow> fval" where
  "np_div a b =
     (if b \<noteq> 0 then Fin (a / b)
      else if 0 < a then PInf
      else if a < 0 then NInf
      else NaN)"

text \<open>\<open>numpy.log10\<close>: minus infinity at zero, NaN below zero, no exception.\<close>

definition log10 :: "real \<Rightarrow> fval" where
  "log10 x = (if 0 < x then Fin (log 10 x) else if x = 0 then NInf else NaN)"

text \<open>\<open>fillna(0.0)\<close> on one cell: only NaN is a missing value.\<close>

fun fillna :: "fval \<Rightarrow> fval" where
  "fillna NaN = Fin 0"
| "fillna v = v"

text \<open>A line of \<open>df_final\<close>: the input line and the derived columns.\<close>

record final_row =
  base :: feature_row
  exon_perc :: fval
  chain_len_log :: fval
  synt_log :: fval
  intr_perc :: fval
  single_exon :: int

text \<open>
  The four chain lists of one gene in \<open>gene_class_chains\<close>.
\<close>

record classes =
  ORTH :: "int list"
  PARA :: "int list"
  TRANS :: "int list"
  P_PGENES :: "int list"

datatype error = KeyError string | AttributeError string

text \<open>
  What a run writes: the class table (the entries of \<open>gene_class_chains\<close> in the order
  of the dictionary), the raw scores when \<open>raw_out\<close> is given, the rejected genes with
  their reason when \<open>rejected\<close> is given.
\<close>

record outputs =
  class_table :: "(string \<times> classes) list"
  raw_scores :: "(string \<times> int \<times> real) list option"
  rejected_log :: "(string \<times> string) list option"

text \<open>
  A trained model scores each line on its own from the line's feature vector;
  \<open>predict_proba(X)[:, 1]\<close> is the list of these scores.
\<close>

type_synonym model = "fval list \<Rightarrow> real"

subsection \<open>The steps of classify_chains\<close>

definition is_p_pseudogene :: "feature_row \<Rightarrow> bool" where
  "is_p_pseudogene r \<longleftrightarrow> synt r = 1 \<and> cds_qlen r > 0.95 \<and> ex_num r > 1"

definition p_pseudogenes :: "feature_row list \<Rightarrow> feature_row list" where
  "p_pseudogenes df = filter is_p_pseudogene df"

text \<open>
  A \<open>defaultdict(list)\<close> is a total function with default \<open>[]\<close>; the loops append one
  chain per line.
\<close>

definition append_chain :: "(string \<Rightarrow> int list) \<Rightarrow> feature_row \<Rightarrow> (string \<Rightarrow> int list)" where
  "append_chain d r = d(gene r := d (gene r) @ [chain_id r])"

definition gene_to_pp_genes :: "feature_row list \<Rightarrow> string \<Rightarrow> int list" where
  "gene_to_pp_genes df = foldl append_chain (\<lambda>_. []) (p_pseudogenes df)"

definition drop_p_pseudogenes :: "feature_row list \<Rightarrow> feature_row list" where
  "drop_p_pseudogenes df = filter (\<lambda>r. \<not> is_p_pseudogene r) df"

definition trans_lines :: "feature_row list \<Rightarrow> feature_row list" where
  "trans_lines df =
     filter (\<lambda>r. synt r > 1) (filter (\<lambda>r. exon_cover r = 0) (drop_p_pseudogenes df))"

text \<open>
  \<open>gene_trans\<close> is filled from the trans lines and not read again: the \<open>TRANS\<close> lists
  of the output come from the score \<open>-1\<close> of these lines.
\<close>

definition gene_trans :: "feature_row list \<Rightarrow> string \<Rightarrow> int list" where
  "gene_trans df = foldl append_chain (\<lambda>_. []) (trans_lines df)"

definition hard_filter :: "feature_row list \<Rightarrow> feature_row list" where
  "hard_filter df =
     filter (\<lambda>r. synt r > 0) (filter (\<lambda>r. exon_cover r > 0) (drop_p_pseudogenes df))"

definition derive :: "feature_row \<Rightarrow> final_row" where
  "derive r =
     \<lparr> base = r,
       exon_perc = fillna (np_div (exon_cover r) (ex_fract r)),
       chain_len_log = fillna (log10 (chain_len r)),
       synt_log = fillna (log10 (real_of_int (synt r))),
       intr_perc = fillna (np_div (intr_cover r) (intr_fract r)),
       single_exon = (if ex_num r = 1 then 1 else 0) \<rparr>"

definition df_final :: "feature_row list \<Rightarrow> final_row list" where
  "df_final df = map derive (hard_filter df)"

definition df_se :: "feature_row list \<Rightarrow> final_row list" where
  "df_se df = filter (\<lambda>f. single_exon f = 1) (df_final df)"

definition df_me :: "feature_row list \<Rightarrow> final_row list" where
  "df_me df = filter (\<lambda>f. single_exon f = 0) (df_final df)"

definition X_se :: "final_row \<Rightarrow> fval list" where
  "X_se f = [Fin (gl_exo (base f)), Fin (flank_cov (base f)), exon_perc f, synt_log f]"

definition X_me :: "final_row \<Rightarrow> fval list" where
  "X_me f = [Fin (gl_exo (base f)), Fin (loc_exo (base f)), Fin (flank_cov (base f)),
             synt_log f, intr_perc f]"

definition scored :: "model \<Rightarrow> (final_row \<Rightarrow> fval list) \<Rightarrow> final_row \<Rightarrow> string \<times> int \<times> real" where
  "scored m X f = (gene (base f), chain_id (base f), m (X f))"

definition trans_result :: "feature_row \<Rightarrow> string \<times> int \<times> real" where
  "trans_result r = (gene r, chain_id r, - 1)"

definition overall_result :: "feature_row list \<Rightarrow> model \<Rightarrow> model \<Rightarrow> (string \<times> int \<times> real) list" where
  "overall_result df se_model me_model =
     map (scored se_model X_se) (df_se df) @
     map (scored me_model X_me) (df_me df) @
     map trans_result (trans_lines df)"

text \<open>
  \<open>gene_class_chains\<close> is a dictionary with one entry per gene of \<open>overall_result\<close>.
  Python iterates the set \<open>genes\<close> in an order of its own; the model takes the order of
  first occurrence. A dictionary is an association list with distinct keys.
\<close>

definition empty_classes :: classes where
  "empty_classes = \<lparr> ORTH = [], PARA = [], TRANS = [], P_PGENES = [] \<rparr>"

definition genes_of :: "(string \<times> int \<times> real) list \<Rightarrow> string list" where
  "genes_of res = remdups (map fst res)"

definition init_class_chains :: "(string \<times> int \<times> real) list \<Rightarrow> (string \<times> classes) list" where
  "init_class_chains res = map (\<lambda>g. (g, empty_classes)) (genes_of res)"

fun update_entry :: "string \<Rightarrow> (classes \<Rightarrow> classes) \<Rightarrow> (string \<times> classes) list \<Rightarrow> (string \<times> classes) list" where
  "update_entry g f [] = []"
| "update_entry g f ((k, v) # kvs) =
     (if k = g then (k, f v) # kvs else (k, v) # update_entry g f kvs)"

definition place :: "real \<Rightarrow> int \<Rightarrow> real \<Rightarrow> classes \<Rightarrow> classes" where
  "place annot_threshold c pred v =
     (if pred = - 1 then v\<lparr>TRANS := TRANS v @ [c]\<rparr>
      else if pred < annot_threshold then v\<lparr>PARA := PARA v @ [c]\<rparr>
      else v\<lparr>ORTH := ORTH v @ [c]\<rparr>)"

definition class_step ::
  "real \<Rightarrow> (string \<Rightarrow> int list) \<Rightarrow> (string \<times> classes) list \<Rightarrow> string \<times> int \<times> real \<Rightarrow> (string \<times> classes) list" where
  "class_step annot_threshold pp d row =
     (case row of (g, c, pred) \<Rightarrow>
        let d1 = update_entry g (place annot_threshold c pred) d
        in if pp g \<noteq> [] then update_entry g (\<lambda>v. v\<lparr>P_PGENES := pp g\<rparr>) d1 else d1)"

definition gene_class_chains ::
  "real \<Rightarrow> (string \<Rightarrow> int list) \<Rightarrow> (string \<times> int \<times> real) list \<Rightarrow> (string \<times> classes) list" where
  "gene_class_chains annot_threshold pp res =
     foldl (class_step annot_threshold pp) (init_class_chains res) res"

definition init_genes :: "feature_row list \<Rightarrow> string list" where
  "init_genes df = remdups (map gene df)"

definition genes_missing :: "feature_row list \<Rightarrow> (string \<times> int \<times> real) list \<Rightarrow> string list" where
  "genes_missing df res = filter (\<lambda>g. g \<notin> set (genes_of res)) (init_genes df)"

text \<open>An optional path argument counts as given when it is neither \<open>None\<close> nor empty.\<close>

definition given :: "string option \<Rightarrow> bool" where
  "given p \<longleftrightarrow> (case p of None \<Rightarrow> False | Some s \<Rightarrow> s \<noteq> [])"

definition reason :: string where
  "reason = ''No classifiable chains''"

text \<open>The body of \<open>classify_chains\<close> once the table is loaded, on the lines of the table.\<close>

definition classify_frame ::
  "feature_row list \<Rightarrow> model \<Rightarrow> model \<Rightarrow> string option \<Rightarrow> string option \<Rightarrow> real \<Rightarrow> outputs" where
  "classify_frame df se_model me_model raw_out rejected annot_threshold =
     (let res = overall_result df se_model me_model
      in \<lparr> class_table = gene_class_chains annot_threshold (gene_to_pp_genes df) res,
           raw_scores = (if given raw_out then Some res else None),
           rejected_log =
             (if given rejected then Some (map (\<lambda>g. (g, reason)) (genes_missing df res))
              else None) \<rparr>)"

text \<open>
  The class table as it is written: the header, then one line per entry, the fields
  separated by tabs, each list joined by commas and an empty list written as \<open>0\<close>.
\<close>

definition chains_field :: "int list \<Rightarrow> string" where
  "chains_field cs = (if cs = [] then ''0'' else str_join '','' (map string_of_int cs))"

definition class_table_line :: "string \<times> classes \<Rightarrow> string" where
  "class_table_line kv =
     (case kv of (k, v) \<Rightarrow>
        str_join tab [k, chains_field (ORTH v), chains_field (PARA v), chains_field (TRANS v),
                      chains_field (P_PGENES v)])"

definition class_table_lines :: "outputs \<Rightarrow> string list" where
  "class_table_lines out =
     str_join tab [''GENE'', ''ORTH'', ''PARA'', ''TRANS'', ''P_PGENES''] #
     map class_table_line (class_table out)"

text \<open>
  Access to the columns, in the order of the source. A column that is not in the header
  raises \<open>KeyError\<close>, and \<open>row.chain\<close> on a line of \<open>itertuples\<close> raises
  \<open>AttributeError\<close>; the chain column is first read where a pseudogene line or a trans
  line exists, and at the latest when the result columns are selected. A selection of
  several columns reports the first one that is missing. Every such error comes before
  anything is written.
\<close>

definition key :: "string list \<Rightarrow> string \<Rightarrow> error option" where
  "key hdr c = (if c \<in> set hdr then None else Some (KeyError c))"

definition attr :: "string list \<Rightarrow> string \<Rightarrow> error option" where
  "attr hdr c = (if c \<in> set hdr then None else Some (AttributeError c))"

fun first_error :: "error option list \<Rightarrow> error option" where
  "first_error [] = None"
| "first_error (None # es) = first_error es"
| "first_error (Some e # es) = Some e"

definition check_columns :: "table \<Rightarrow> error option" where
  "check_columns t =
     (let hdr = header t; df = body t in
      first_error
        [key hdr ''gene'',
         key hdr ''synt'', key hdr ''cds_qlen'', key hdr ''ex_num'',
         (if p_pseudogenes df \<noteq> [] then key hdr ''chain'' else None),
         key hdr ''exon_cover'', key hdr ''synt'',
         (if trans_lines df \<noteq> [] then attr hdr ''chain'' else None),
         key hdr ''exon_cover'', key hdr ''ex_fract'', key hdr ''chain_len'',
         key hdr ''synt'', key hdr ''intr_cover'', key hdr ''intr_fract'',
         key hdr ''ex_num'',
         key hdr ''gl_exo'', key hdr ''flank_cov'', key hdr ''loc_exo'',
         key hdr ''gene'', key hdr ''chain''])"

definition classify_chains ::
  "table \<Rightarrow> model \<Rightarrow> model \<Rightarrow> string option \<Rightarrow> string option \<Rightarrow> real \<Rightarrow> error + outputs" where
  "classify_chains t se_model me_model raw_out rejected annot_threshold =
     (case check_columns t of
        Some e \<Rightarrow> Inl e
      | None \<Rightarrow> Inr (classify_frame (body t) se_model me_model raw_out rejected annot_threshold))"

definition annot_threshold_default :: real where
  "annot_threshold_default = 0.5"

subsection \<open>Notions used to state the properties\<close>

text \<open>The chains of gene \<open>g\<close> in a result list whose score satisfies \<open>P\<close>, in order.\<close>

definition chains_where :: "(real \<Rightarrow> bool) \<Rightarrow> (string \<times> int \<times> real) list \<Rightarrow> string \<Rightarrow> int list" where
  "chains_where P res g = map (\<lambda>(g', c, p). c) (filter (\<lambda>(g', c, p). g' = g \<and> P p) res)"

text \<open>
  The score of a line that reaches a model: the single-exon model when the exon count is
  one, the multi-exon model otherwise.
\<close>

definition pred_of :: "model \<Rightarrow> model \<Rightarrow> feature_row \<Rightarrow> real" where
  "pred_of se_model me_model r =
     (if ex_num r = 1 then se_model (X_se (derive r)) else me_model (X_me (derive r)))"

definition is_trans :: "feature_row \<Rightarrow> bool" where
  "is_trans r \<longleftrightarrow> \<not> is_p_pseudogene r \<and> exon_cover r = 0 \<and> synt r > 1"

definition is_scored :: "feature_row \<Rightarrow> bool" where
  "is_scored r \<longleftrightarrow> \<not> is_p_pseudogene r \<and> exon_cover r > 0 \<and> synt r > 0"

text \<open>The columns that \<open>classify_chains\<close> reads.\<close>

definition required_columns :: "string list" where
  "required_columns =
     [''gene'', ''chain'', ''synt'', ''cds_qlen'', ''ex_num'', ''exon_cover'', ''ex_fract'',
      ''chain_len'', ''intr_cover'', ''intr_fract'', ''gl_exo'', ''flank_cov'', ''loc_exo'']"

text \<open>
  The raw-score table read back as an input table: its columns are gene, chain and pred,
  its lines are the raw-score lines with \<open>pred\<close> other than \<open>-1\<close>. The fields of the
  feature columns, absent from the header, are never read.
\<close>

definition raw_header :: "string list" where
  "raw_header = [''gene'', ''chain'', ''pred'']"

definition raw_line :: "string \<times> int \<times> real \<Rightarrow> feature_row" where
  "raw_line row =
     (case row of (g, c, p) \<Rightarrow>
        \<lparr> gene = g, chain_id = c, synt = 0, gl_exo = 0, loc_exo = 0, flank_cov = 0,
          exon_cover = 0, ex_fract = 0, intr_cover = 0, intr_fract = 0,
          chain_len = 0, ex_num = 0, cds_qlen = 0 \<rparr>)"

definition rescore_rows :: "(string \<times> int \<times> real) list \<Rightarrow> (string \<times> int \<times> real) list" where
  "rescore_rows res = filter (\<lambda>(g, c, p). p \<noteq> - 1) res"

definition raw_score_table :: "(string \<times> int \<times> real) list \<Rightarrow> table" where
  "raw_score_table res = \<lparr> header = raw_header, body = map raw_line (rescore_rows res) \<rparr>"

definition lookup_ORTH :: "(string \<times> classes) list \<Rightarrow> string \<Rightarrow> int list" where
  "lookup_ORTH d g = (case map_of d g of None \<Rightarrow> [] | Some v \<Rightarrow> ORTH v)"

definition lookup_PARA :: "(string \<times> classes) list \<Rightarrow> string \<Rightarrow> int list" where
  "lookup_PARA d g = (case map_of d g of None \<Rightarrow> [] | Some v \<Rightarrow> PARA v)"

subsection \<open>Example tables\<close>

definition full_header :: "string list" where
  "full_header =
     [''gene'', ''chain'', ''synt'', ''gl_exo'', ''loc_exo'', ''flank_cov'', ''exon_cover'',
      ''ex_fract'', ''intr_cover'', ''intr_fract'', ''chain_len'', ''ex_num'', ''cds_qlen'']"

definition row_pp :: feature_row where
  "row_pp = \<lparr> gene = ''G1'', chain_id = 1, synt = 1, gl_exo = 1, loc_exo = 1, flank_cov = 0,
              exon_cover = 100, ex_fract = 100, intr_cover = 0, intr_fract = 0,
              chain_len = 1000, ex_num = 2, cds_qlen = 0.97 \<rparr>"

definition row_se :: feature_row where
  "row_se = \<lparr> gene = ''G1'', chain_id = 3, synt = 2, gl_exo = 1, loc_exo = 1, flank_cov = 0,
              exon_cover = 50, ex_fract = 100, intr_cover = 0, intr_fract = 0,
              chain_len = 2000, ex_num = 1, cds_qlen = 0.5 \<rparr>"

definition row_trans :: feature_row where
  "row_trans = \<lparr> gene = ''G2'', chain_id = 2, synt = 5, gl_exo = 0, loc_exo = 0, flank_cov = 0,
              exon_cover = 0, ex_fract = 0, intr_cover = 30, intr_fract = 60,
              chain_len = 3000, ex_num = 3, cds_qlen = 0 \<rparr>"

definition demo_table :: table where
  "demo_table = \<lparr> header = full_header, body = [row_pp, row_se, row_trans] \<rparr>"

definition row_zero_fract :: feature_row where
  "row_zero_fract = \<lparr> gene = ''G3'', chain_id = 4, synt = 3, gl_exo = 1, loc_exo = 1, flank_cov = 0,
              exon_cover = 10, ex_fract = 0, intr_cover = 5, intr_fract = 0,
              chain_len = 0, ex_num = 2, cds_qlen = 0.5 \<rparr>"

definition pp_only_table :: table where
  "pp_only_table = \<lparr> header = full_header, body = [row_pp] \<rparr>"

definition demo_out :: outputs where
  "demo_out =
     \<lparr> class_table = [(''G1'', \<lparr> ORTH = [3], PARA = [], TRANS = [], P_PGENES = [1] \<rparr>),
                      (''G2'', \<lparr> ORTH = [], PARA = [], TRANS = [2], P_PGENES = [] \<rparr>)],
       raw_scores = Some [(''G1'', 3, 0.5), (''G2'', 2, - 1)],
       rejected_log = Some [] \<rparr>"

definition pp_only_out :: outputs where
  "pp_only_out =
     \<lparr> class_table = [], raw_scores = Some [],
       rejected_log = Some [(''G1'', ''No classifiable chains'')] \<rparr>"

definition demo_raw :: "(string \<times> int \<times> real) list" where
  "demo_raw = [(''G1'', 3, 0.5), (''G2'', 2, - 1)]"

section \<open>The job bucketer (Toga.__run_cesar_jobs in toga.py)\<close>

text \<open>
  The pattern given to \<open>grep\<close> is \<open>_{b}.bdb\<close>. In a basic regular expression the dot
  stands for any one character; the other characters of the pattern stand for themselves.
\<close>

datatype atom = Lit char | Dot

fun match_here :: "atom list \<Rightarrow> string \<Rightarrow> bool" where
  "match_here [] s = True"
| "match_here (a # as) [] = False"
| "match_here (Lit c # as) (x # xs) = (x = c \<and> match_here as xs)"
| "match_here (Dot # as) (x # xs) = match_here as xs"

fun grep_line :: "atom list \<Rightarrow> string \<Rightarrow> bool" where
  "grep_line as [] = match_here as []"
| "grep_line as (x # xs) = (match_here as (x # xs) \<or> grep_line as xs)"

definition bucket_pattern :: "int \<Rightarrow> atom list" where
  "bucket_pattern b = Lit (CHR ''_'') # map Lit (string_of_int b) @ [Dot, Lit (CHR ''b''), Lit (CHR ''d''), Lit (CHR ''b'')]"

definition grep_bucket :: "string list \<Rightarrow> int \<Rightarrow> string list" where
  "grep_bucket jobs b = filter (grep_line (bucket_pattern b)) jobs"

text \<open>
  One round of the loop over the buckets: the job list pushed for bucket \<open>b\<close>, or nothing
  when \<open>grep\<close> finds no line (the bucket is skipped with a message). Bucket 0 stands
  for the single pool and takes the whole combined list. The list \<open>buckets\<close> holds the
  integers of the \<open>--cesar_buckets\<close> option, in the order given.
\<close>

definition bucket_joblist :: "string list \<Rightarrow> int \<Rightarrow> string list option" where
  "bucket_joblist jobs b =
     (if b \<noteq> 0 then (case grep_bucket jobs b of [] \<Rightarrow> None | ts \<Rightarrow> Some ts)
      else Some jobs)"

definition pushed_joblists :: "string list \<Rightarrow> int list \<Rightarrow> (int \<times> string list) list" where
  "pushed_joblists jobs buckets =
     List.map_filter (\<lambda>b. map_option (Pair b) (bucket_joblist jobs b)) buckets"

text \<open>An example job list.\<close>

definition demo_jobs :: "string list" where
  "demo_jobs = [''cesar_runner.py job_1 out/job_1_5.bdb'', ''cesar_runner.py job_2 out/job_2_7.bdb'']"

section \<open>The pipeline controller (class Toga in toga.py)\<close>

subsection \<open>Command line and state\<close>

text \<open>The namespace that \<open>parse_args\<close> returns: one field per argument of the parser.\<close>

record args =
  chain_input :: string
  bed_input :: string
  tDB :: string
  qDB :: string
  project_folder :: "string option"
  project_name :: "string option"
  min_score :: int
  isoforms :: string
  keep_temp :: bool
  limit_to_ref_chrom :: "string option"
  nextflow_dir :: "string option"
  nextflow_config_dir :: "string option"
  do_not_del_nf_logs :: bool
  chain_jobs_num :: int
  no_chain_filter :: bool
  cesar_jobs_num :: int
  cesar_binary :: "string option"
  mask_stops :: bool
  cesar_buckets :: string
  cesar_chain_limit :: int
  cesar_mem_limit :: int
  homology_types :: string
  time_marks :: "string option"
  u12 :: "string option"
  stop_at_chain_class :: bool
  uhq_flank :: int
  o2o_only :: bool
  no_fpi :: bool

text \<open>
  The attributes of the \<open>Toga\<close> object that the modelled methods read. \<open>__init__\<close>
  assigns them, except \<open>cesar_results\<close>, which \<open>__split_cesar_jobs\<close> assigns, and
  the entries of \<open>temp_files\<close>, which the stages append.
\<close>

record toga =
  LOCATION :: string
  wd :: string
  rejected_dir :: string
  chain_file :: string
  chain_results_df :: string
  temp_files :: "string list"
  keep_temp :: bool
  stop_at_chain_class :: bool
  gene_loss_data :: string
  cesar_results :: string

text \<open>\<open>os.path.join\<close> of a directory and a relative name.\<close>

definition path_join :: "string \<Rightarrow> string \<Rightarrow> string" where
  "path_join a b = a @ ''/'' @ b"

text \<open>
  The assignments of \<open>__init__\<close>. The directory of the scripts and the project directory
  (from \<open>--project_folder\<close>, or the current directory and the project name) are given;
  the checks of \<open>__init__\<close> either end the run or leave these values as they are.
\<close>

definition toga_init :: "string \<Rightarrow> string \<Rightarrow> args \<Rightarrow> toga" where
  "toga_init location project_dir a =
     \<lparr> LOCATION = location,
       wd = project_dir,
       rejected_dir = path_join project_dir ''rejected'',
       chain_file = path_join project_dir ''genome_alignment.chain'',
       chain_results_df = path_join project_dir ''chain_results_df.tsv'',
       temp_files = [],
       keep_temp = args.keep_temp a,
       stop_at_chain_class = args.stop_at_chain_class a,
       gene_loss_data = path_join project_dir ''inact_mut_data'',
       cesar_results = path_join project_dir ''cesar_results'' \<rparr>"

text \<open>
  The command that prepares the chain file; \<open>None\<close> where \<open>__init__\<close> ends the run
  because the input is not a file. It is the only place where \<open>min_score\<close> is read.
  The name of the input ends with \<open>.gz\<close> exactly when its base name does.
\<close>

definition chain_filter_cmd :: "toga \<Rightarrow> args \<Rightarrow> bool \<Rightarrow> string option" where
  "chain_filter_cmd self a input_is_file =
     (let CHAIN_SCORE_FILTER = path_join (path_join (LOCATION self) ''modules'') ''chain_score_filter'' in
      if \<not> input_is_file then None
      else if suffix ''.gz'' (chain_input a) then
        Some (''gzip -dc '' @ chain_input a @ '' | '' @ CHAIN_SCORE_FILTER @ '' stdin '' @
              string_of_int (min_score a) @ '' > '' @ chain_file self)
      else if no_chain_filter a then
        Some (''rsync -a '' @ chain_input a @ '' '' @ chain_file self)
      else
        Some (CHAIN_SCORE_FILTER @ '' '' @ chain_input a @ '' '' @
              string_of_int (min_score a) @ '' > '' @ chain_file self))"

text \<open>
  A call of \<open>classify_chains\<close> with keyword arguments: a keyword that the caller leaves
  out takes the default of the signature, \<open>annot_threshold=0.5\<close>.
\<close>

record kwargs =
  kw_raw_out :: "string option"
  kw_rejected :: "string option"
  kw_annot_threshold :: "real option"

definition call_classify_chains :: "table \<Rightarrow> model \<Rightarrow> model \<Rightarrow> kwargs \<Rightarrow> error + outputs" where
  "call_classify_chains t se_model me_model kw =
     classify_chains t se_model me_model (kw_raw_out kw) (kw_rejected kw)
       (case kw_annot_threshold kw of None \<Rightarrow> annot_threshold_default | Some x \<Rightarrow> x)"

text \<open>
  The call in \<open>Toga.__classify_chains\<close>, on the table that the file
  \<open>chain_results_df\<close> holds and the two models loaded from the model files: the raw
  scores and the rejected log are requested, no threshold is passed.
\<close>

definition Toga_classify_chains :: "toga \<Rightarrow> table \<Rightarrow> model \<Rightarrow> model \<Rightarrow> error + outputs" where
  "Toga_classify_chains self t se_model me_model =
     (let pred_scores = path_join (wd self) ''orthology_scores.tsv'';
          cl_rej_log = path_join (rejected_dir self) ''classify_chains_rejected.txt''
      in call_classify_chains t se_model me_model
           \<lparr> kw_raw_out = Some pred_scores, kw_rejected = Some cl_rej_log,
             kw_annot_threshold = None \<rparr>)"

subsection \<open>Files and teardown\<close>

text \<open>
  The files of the project: a path is a regular file with its lines, or a directory.
\<close>

datatype node = File "string list" | Dir

type_synonym filesystem = "(string \<times> node) list"

definition isfile :: "filesystem \<Rightarrow> string \<Rightarrow> bool" where
  "isfile fs p = (case map_of fs p of Some (File ls) \<Rightarrow> True | _ \<Rightarrow> False)"

definition isdir :: "filesystem \<Rightarrow> string \<Rightarrow> bool" where
  "isdir fs p = (map_of fs p = Some Dir)"

definition os_remove :: "string \<Rightarrow> filesystem \<Rightarrow> filesystem" where
  "os_remove p fs = filter (\<lambda>(q, n). q \<noteq> p) fs"

definition inside :: "string \<Rightarrow> string \<Rightarrow> bool" where
  "inside d q \<longleftrightarrow> q = d \<or> prefix (d @ ''/'') q"

definition rmtree :: "string \<Rightarrow> filesystem \<Rightarrow> filesystem" where
  "rmtree d fs = filter (\<lambda>(q, n). \<not> inside d q) fs"

definition write_file :: "string \<Rightarrow> string list \<Rightarrow> filesystem \<Rightarrow> filesystem" where
  "write_file p ls fs = (p, File ls) # filter (\<lambda>(q, n). q \<noteq> p) fs"

fun strip_prefix :: "string \<Rightarrow> string \<Rightarrow> string option" where
  "strip_prefix [] s = Some s"
| "strip_prefix (c # cs) [] = None"
| "strip_prefix (c # cs) (x # xs) = (if c = x then strip_prefix cs xs else None)"

definition entry_name :: "string \<Rightarrow> string \<Rightarrow> string option" where
  "entry_name d q =
     (case strip_prefix (d @ ''/'') q of
        None \<Rightarrow> None
      | Some name \<Rightarrow> if name \<noteq> [] \<and> CHR ''/'' \<notin> set name then Some name else None)"

definition listdir :: "string \<Rightarrow> filesystem \<Rightarrow> string list" where
  "listdir d fs = List.map_filter (\<lambda>(q, n). entry_name d q) fs"

text \<open>
  How a run ends: \<open>Exit\<close> with the lines written to the error stream, the exit status
  and the files left; \<open>Uncaught\<close> for an exception that nothing handles (the
  interpreter prints a traceback and ends with status 1).
\<close>

datatype outcome = Exit "string list" int filesystem | Uncaught string filesystem

definition remove_temp :: "bool \<Rightarrow> filesystem \<Rightarrow> string \<Rightarrow> filesystem" where
  "remove_temp keep fs t_file =
     (let fs1 = (if isfile fs t_file \<and> \<not> keep then os_remove t_file fs else fs)
      in if isdir fs1 t_file \<and> \<not> keep then rmtree t_file fs1 else fs1)"

definition die :: "toga \<Rightarrow> string \<Rightarrow> int \<Rightarrow> filesystem \<Rightarrow> outcome" where
  "die self msg rc fs =
     Exit [msg, ''Program finished with exit code '' @ string_of_int rc] rc
       (foldl (remove_temp (keep_temp self)) fs (temp_files self))"

text \<open>
  The end of \<open>Toga.__classify_chains\<close>: with \<open>--stop_at_chain_class\<close> the run ends
  here through \<open>die\<close> with status 0.
\<close>

definition halt_after_classification :: "toga \<Rightarrow> filesystem \<Rightarrow> outcome option" where
  "halt_after_classification self fs =
     (if stop_at_chain_class self
      then Some (die self ''User requested to halt after chain features extraction'' 0 fs)
      else None)"

text \<open>
  \<open>Toga.__merge_dir\<close> is a static method: it has no access to the object, and ends
  the run through \<open>sys.exit\<close> with a message when the directory is empty.
\<close>

definition blank_line :: string where
  "blank_line = [CHR 0x0A]"

text \<open>
  The lines that the loop over the directory entries writes, blank lines left out, and
  whether every entry could be opened: opening an entry that is a directory raises
  \<open>IsADirectoryError\<close> after the lines of the entries before it were written. The
  entries are taken in the order of the file system.
\<close>

fun read_all :: "filesystem \<Rightarrow> string \<Rightarrow> string list \<Rightarrow> string list \<times> bool" where
  "read_all fs d [] = ([], True)"
| "read_all fs d (filename # rest) =
     (case map_of fs (d @ ''/'' @ filename) of
        Some (File ls) \<Rightarrow>
          (case read_all fs d rest of (later, ok) \<Rightarrow> (filter (\<lambda>x. x \<noteq> blank_line) ls @ later, ok))
      | _ \<Rightarrow> ([], False))"

definition merge_dir :: "string \<Rightarrow> string \<Rightarrow> filesystem \<Rightarrow> outcome + filesystem" where
  "merge_dir dir_name output fs =
     (case map_of fs dir_name of
        None \<Rightarrow> Inl (Uncaught ''FileNotFoundError'' fs)
      | Some (File ls) \<Rightarrow> Inl (Uncaught ''NotADirectoryError'' fs)
      | Some Dir \<Rightarrow>
          (let files_list = listdir dir_name fs in
           if length files_list = 0 then Inl (Exit [''Error! '' @ dir_name @ '' is empty''] 1 fs)
           else (case read_all fs dir_name files_list of
                   (content, ok) \<Rightarrow>
                     if ok then Inr (rmtree dir_name (write_file output content fs))
                     else Inl (Uncaught ''IsADirectoryError'' (write_file output content fs)))))"

definition then_merge :: "outcome + filesystem \<Rightarrow> string \<Rightarrow> string \<Rightarrow> outcome + filesystem" where
  "then_merge r dir_name output = (case r of Inl e \<Rightarrow> Inl e | Inr fs \<Rightarrow> merge_dir dir_name output fs)"

definition merge_split_files :: "toga \<Rightarrow> filesystem \<Rightarrow> outcome + filesystem" where
  "merge_split_files self fs =
     then_merge
       (then_merge
          (merge_dir (rejected_dir self) (wd self @ ''/genes_rejection_reason.tsv'') fs)
          (gene_loss_data self) (wd self @ ''/inact_mut_data.txt''))
       (cesar_results self) (wd self @ ''/cesar_results.txt'')"

subsection \<open>Example state\<close>

definition demo_toga :: toga where
  "demo_toga =
     \<lparr> LOCATION = ''toga'', wd = ''wd'', rejected_dir = ''wd/rejected'',
       chain_file = ''wd/genome_alignment.chain'',
       chain_results_df = ''wd/chain_results_df.tsv'',
       temp_files = [''wd/genome_alignment.chain'', ''wd/cesar_jobs''],
       keep_temp = False, stop_at_chain_class = False,
       gene_loss_data = ''wd/inact_mut_data'', cesar_results = ''wd/cesar_results'' \<rparr>"

definition demo_fs :: filesystem where
  "demo_fs =
     [(''wd'', Dir),
      (''wd/genome_alignment.chain'', File [''chain 1000 chr1 ...'']),
      (''wd/cesar_jobs'', Dir),
      (''wd/cesar_jobs/cesar_job_1_5'', File [''job'']),
      (''wd/rejected'', Dir),
      (''wd/rejected/classify_chains_rejected.txt'', File [''G1 No classifiable chains'']),
      (''wd/inact_mut_data'', Dir),
      (''wd/cesar_results'', Dir)]"

definition fs_after_merge_exit :: filesystem where
  "fs_after_merge_exit =
     [(''wd/genes_rejection_reason.tsv'', File [''G1 No classifiable chains'']),
      (''wd'', Dir),
      (''wd/genome_alignment.chain'', File [''chain 1000 chr1 ...'']),
      (''wd/cesar_jobs'', Dir),
      (''wd/cesar_jobs/cesar_job_1_5'', File [''job'']),
      (''wd/inact_mut_data'', Dir),
      (''wd/cesar_results'', Dir)]"

section \<open>Properties of the classifier\<close>

subsection \<open>The loops\<close>

lemma foldl_append_chain:
  "foldl append_chain d rs g = d g @ map chain_id (filter (\<lambda>r. gene r = g) rs)"
  by (induction rs arbitrary: d) (auto simp: append_chain_def)

lemma gene_to_pp_genes_eq:
  "gene_to_pp_genes df g = map chain_id (filter (\<lambda>r. gene r = g \<and> is_p_pseudogene r) df)"
  by (simp add: gene_to_pp_genes_def p_pseudogenes_def foldl_append_chain conj_commute)

lemma keys_update_entry: "map fst (update_entry g f d) = map fst d"
  by (induction d) auto

lemma map_of_update_entry:
  "map_of (update_entry g f d) k = (if k = g then map_option f (map_of d g) else map_of d k)"
  by (induction d) auto

lemma keys_class_step: "map fst (class_step thr pp d row) = map fst d"
  by (cases row) (simp add: class_step_def Let_def keys_update_entry)

lemma keys_foldl_class_step: "map fst (foldl (class_step thr pp) d res) = map fst d"
  by (induction res arbitrary: d) (simp_all add: keys_class_step)

lemma map_of_class_step:
  assumes "map_of d g = Some v"
  shows "map_of (class_step thr pp d (g', c, p)) g =
     Some (if g' = g then (place thr c p v)\<lparr>P_PGENES := (if pp g \<noteq> [] then pp g else P_PGENES v)\<rparr> else v)"
  using assms by (auto simp: class_step_def Let_def map_of_update_entry place_def)

lemma map_of_foldl_class_step:
  assumes "map_of d g = Some v"
  shows "map_of (foldl (class_step thr pp) d res) g =
     Some \<lparr> ORTH = ORTH v @ chains_where (\<lambda>p. p \<noteq> - 1 \<and> \<not> p < thr) res g,
            PARA = PARA v @ chains_where (\<lambda>p. p \<noteq> - 1 \<and> p < thr) res g,
            TRANS = TRANS v @ chains_where (\<lambda>p. p = - 1) res g,
            P_PGENES = (if g \<in> fst ` set res \<and> pp g \<noteq> [] then pp g else P_PGENES v) \<rparr>"
  using assms
proof (induction res arbitrary: d v)
  case Nil
  then show ?case by (simp add: chains_where_def)
next
  case (Cons row res)
  obtain g' c p where row: "row = (g', c, p)" by (cases row) auto
  show ?case
    unfolding row foldl_Cons
    by (subst Cons.IH[OF map_of_class_step[OF Cons.prems]])
       (auto simp: chains_where_def place_def)
qed

lemma set_trans_lines: "set (trans_lines df) = {r \<in> set df. is_trans r}"
  by (auto simp: trans_lines_def drop_p_pseudogenes_def is_trans_def)

lemma set_hard_filter: "set (hard_filter df) = {r \<in> set df. is_scored r}"
  by (auto simp: hard_filter_def drop_p_pseudogenes_def is_scored_def)

lemma base_derive [simp]: "base (derive r) = r"
  by (simp add: derive_def)

lemma single_exon_derive: "single_exon (derive r) = (if ex_num r = 1 then 1 else 0)"
  by (simp add: derive_def)

lemma df_se_eq: "df_se df = map derive (filter (\<lambda>r. ex_num r = 1) (hard_filter df))"
  by (simp add: df_se_def df_final_def filter_map comp_def single_exon_derive)

lemma df_me_eq: "df_me df = map derive (filter (\<lambda>r. ex_num r \<noteq> 1) (hard_filter df))"
  by (simp add: df_me_def df_final_def filter_map comp_def single_exon_derive)

lemma scored_se_eq:
  "map (scored se_model X_se) (df_se df) =
     map (\<lambda>r. (gene r, chain_id r, pred_of se_model me_model r))
       (filter (\<lambda>r. ex_num r = 1) (hard_filter df))"
  by (simp add: df_se_eq scored_def pred_of_def)

lemma scored_me_eq:
  "map (scored me_model X_me) (df_me df) =
     map (\<lambda>r. (gene r, chain_id r, pred_of se_model me_model r))
       (filter (\<lambda>r. ex_num r \<noteq> 1) (hard_filter df))"
  by (simp add: df_me_eq scored_def pred_of_def)

lemma set_overall_result:
  "set (overall_result df se_model me_model) =
     (\<lambda>r. (gene r, chain_id r, pred_of se_model me_model r)) ` {r \<in> set df. is_scored r} \<union>
     trans_result ` {r \<in> set df. is_trans r}"
proof -
  let ?f = "\<lambda>r. (gene r, chain_id r, pred_of se_model me_model r)"
  have "set (overall_result df se_model me_model) =
          ?f ` {r \<in> set (hard_filter df). ex_num r = 1} \<union>
          ?f ` {r \<in> set (hard_filter df). ex_num r \<noteq> 1} \<union>
          trans_result ` set (trans_lines df)"
    unfolding overall_result_def
    by (simp only: scored_se_eq[of se_model df me_model] scored_me_eq[of me_model df se_model]
                   set_append set_map set_filter Un_assoc)
  also have "?f ` {r \<in> set (hard_filter df). ex_num r = 1} \<union>
             ?f ` {r \<in> set (hard_filter df). ex_num r \<noteq> 1} = ?f ` set (hard_filter df)"
    by blast
  finally show ?thesis
    by (simp add: set_hard_filter set_trans_lines)
qed

lemma keys_gene_class_chains:
  "map fst (gene_class_chains thr pp res) = genes_of res"
  by (simp add: gene_class_chains_def keys_foldl_class_step init_class_chains_def comp_def)

lemma set_genes_of: "set (genes_of res) = fst ` set res"
  by (simp add: genes_of_def)

lemma map_of_init_class_chains:
  "g \<in> fst ` set res \<Longrightarrow> map_of (init_class_chains res) g = Some empty_classes"
  unfolding init_class_chains_def
  by (rule map_of_is_SomeI) (auto simp: comp_def genes_of_def)

lemma map_of_gene_class_chains:
  assumes "g \<in> fst ` set res"
  shows "map_of (gene_class_chains thr pp res) g =
     Some \<lparr> ORTH = chains_where (\<lambda>p. p \<noteq> - 1 \<and> \<not> p < thr) res g,
            PARA = chains_where (\<lambda>p. p \<noteq> - 1 \<and> p < thr) res g,
            TRANS = chains_where (\<lambda>p. p = - 1) res g,
            P_PGENES = pp g \<rparr>"
  unfolding gene_class_chains_def
  by (subst map_of_foldl_class_step[OF map_of_init_class_chains[OF assms]])
     (use assms in \<open>auto simp: empty_classes_def\<close>)

lemma map_of_gene_class_chains_None:
  "g \<notin> fst ` set res \<Longrightarrow> map_of (gene_class_chains thr pp res) g = None"
  by (metis keys_gene_class_chains set_genes_of map_of_eq_None_iff set_map)

lemma set_chains_where:
  "set (chains_where P res g) = {c. \<exists>p. (g, c, p) \<in> set res \<and> P p}"
  by (auto simp: chains_where_def image_iff)

lemma check_columns_ok:
  "set required_columns \<subseteq> set (header t) \<Longrightarrow> check_columns t = None"
  by (simp add: check_columns_def required_columns_def key_def attr_def Let_def)

lemma classify_chains_ok:
  "set required_columns \<subseteq> set (header t) \<Longrightarrow>
   classify_chains t se_model me_model raw_out rejected thr =
     Inr (classify_frame (body t) se_model me_model raw_out rejected thr)"
  by (simp add: classify_chains_def check_columns_ok)

lemma class_table_frame:
  "class_table (classify_frame df se_model me_model raw_out rejected thr) =
     gene_class_chains thr (gene_to_pp_genes df) (overall_result df se_model me_model)"
  by (simp add: classify_frame_def Let_def)

lemma in_overall_result:
  "(g, c, p) \<in> set (overall_result df se_model me_model) \<longleftrightarrow>
     (\<exists>r\<in>set df. gene r = g \<and> chain_id r = c \<and>
        (is_scored r \<and> p = pred_of se_model me_model r \<or> is_trans r \<and> p = - 1))"
  by (auto simp: set_overall_result trans_result_def image_iff)

lemma gene_in_overall_result:
  "g \<in> fst ` set (overall_result df se_model me_model) \<longleftrightarrow>
     (\<exists>r\<in>set df. gene r = g \<and> (is_scored r \<or> is_trans r))"
  by (force simp: set_overall_result trans_result_def image_iff)

lemma class_table_row:
  assumes "map_of (class_table (classify_frame df se_model me_model raw_out rejected thr)) g = Some v"
  shows "g \<in> fst ` set (overall_result df se_model me_model)"
    and "v = \<lparr> ORTH = chains_where (\<lambda>p. p \<noteq> - 1 \<and> \<not> p < thr) (overall_result df se_model me_model) g,
               PARA = chains_where (\<lambda>p. p \<noteq> - 1 \<and> p < thr) (overall_result df se_model me_model) g,
               TRANS = chains_where (\<lambda>p. p = - 1) (overall_result df se_model me_model) g,
               P_PGENES = gene_to_pp_genes df g \<rparr>"
proof -
  show g: "g \<in> fst ` set (overall_result df se_model me_model)"
    using assms map_of_gene_class_chains_None
    by (fastforce simp: class_table_frame)
  show "v = \<lparr> ORTH = chains_where (\<lambda>p. p \<noteq> - 1 \<and> \<not> p < thr) (overall_result df se_model me_model) g,
               PARA = chains_where (\<lambda>p. p \<noteq> - 1 \<and> p < thr) (overall_result df se_model me_model) g,
               TRANS = chains_where (\<lambda>p. p = - 1) (overall_result df se_model me_model) g,
               P_PGENES = gene_to_pp_genes df g \<rparr>"
    using assms map_of_gene_class_chains[OF g, of thr "gene_to_pp_genes df"]
    by (simp add: class_table_frame)
qed

lemma class_table_lists:
  assumes "map_of (class_table (classify_frame df se_model me_model raw_out rejected thr)) g = Some v"
  shows "c \<in> set (ORTH v) \<longleftrightarrow>
           (\<exists>r\<in>set df. gene r = g \<and> chain_id r = c \<and> is_scored r \<and>
              pred_of se_model me_model r \<noteq> - 1 \<and> \<not> pred_of se_model me_model r < thr)"
    and "c \<in> set (PARA v) \<longleftrightarrow>
           (\<exists>r\<in>set df. gene r = g \<and> chain_id r = c \<and> is_scored r \<and>
              pred_of se_model me_model r \<noteq> - 1 \<and> pred_of se_model me_model r < thr)"
    and "c \<in> set (TRANS v) \<longleftrightarrow>
           (\<exists>r\<in>set df. gene r = g \<and> chain_id r = c \<and>
              (is_trans r \<or> is_scored r \<and> pred_of se_model me_model r = - 1))"
    and "c \<in> set (P_PGENES v) \<longleftrightarrow>
           (\<exists>r\<in>set df. gene r = g \<and> chain_id r = c \<and> is_p_pseudogene r)"
proof -
  note v = class_table_row(2)[OF assms]
  show "c \<in> set (ORTH v) \<longleftrightarrow>
           (\<exists>r\<in>set df. gene r = g \<and> chain_id r = c \<and> is_scored r \<and>
              pred_of se_model me_model r \<noteq> - 1 \<and> \<not> pred_of se_model me_model r < thr)"
    by (subst v) (auto simp: set_chains_where in_overall_result)
  show "c \<in> set (PARA v) \<longleftrightarrow>
           (\<exists>r\<in>set df. gene r = g \<and> chain_id r = c \<and> is_scored r \<and>
              pred_of se_model me_model r \<noteq> - 1 \<and> pred_of se_model me_model r < thr)"
    by (subst v) (auto simp: set_chains_where in_overall_result)
  show "c \<in> set (TRANS v) \<longleftrightarrow>
           (\<exists>r\<in>set df. gene r = g \<and> chain_id r = c \<and>
              (is_trans r \<or> is_scored r \<and> pred_of se_model me_model r = - 1))"
    by (subst v) (auto simp: set_chains_where in_overall_result)
  show "c \<in> set (P_PGENES v) \<longleftrightarrow>
           (\<exists>r\<in>set df. gene r = g \<and> chain_id r = c \<and> is_p_pseudogene r)"
    by (subst v) (auto simp: gene_to_pp_genes_eq)
qed

lemma class_table_has_row:
  assumes "r \<in> set df" "is_scored r \<or> is_trans r"
  shows "\<exists>v. map_of (class_table (classify_frame df se_model me_model raw_out rejected thr)) (gene r) = Some v"
proof -
  have "gene r \<in> fst ` set (overall_result df se_model me_model)"
    using assms gene_in_overall_result by blast
  then show ?thesis
    by (simp add: class_table_frame map_of_gene_class_chains)
qed

lemma kinds_exclusive:
  "\<not> (is_scored r \<and> is_trans r)" "\<not> (is_p_pseudogene r \<and> is_trans r)"
  "\<not> (is_p_pseudogene r \<and> is_scored r)"
  by (auto simp: is_scored_def is_trans_def)

lemma disjoint_by_rows:
  assumes same: "\<And>r1 r2. r1 \<in> S \<Longrightarrow> r2 \<in> S \<Longrightarrow> gene r1 = gene r2 \<Longrightarrow>
                   chain_id r1 = chain_id r2 \<Longrightarrow> r1 = r2"
      and A: "\<And>c. c \<in> A \<longleftrightarrow> (\<exists>r\<in>S. gene r = g \<and> chain_id r = c \<and> P r)"
      and B: "\<And>c. c \<in> B \<longleftrightarrow> (\<exists>r\<in>S. gene r = g \<and> chain_id r = c \<and> Q r)"
      and excl: "\<And>r. \<not> (P r \<and> Q r)"
  shows "A \<inter> B = {}"
proof (rule ccontr)
  assume "A \<inter> B \<noteq> {}"
  then obtain c where "c \<in> A" "c \<in> B" by blast
  then obtain r1 r2 where r1: "r1 \<in> S" "gene r1 = g" "chain_id r1 = c" "P r1"
    and r2: "r2 \<in> S" "gene r2 = g" "chain_id r2 = c" "Q r2"
    using A B by blast
  have "r1 = r2"
    using same[of r1 r2] r1 r2 by simp
  then show False
    using excl[of r1] r1(4) r2(4) by simp
qed

lemma chains_where_absent: "g \<notin> fst ` set res \<Longrightarrow> chains_where P res g = []"
  by (auto simp: chains_where_def filter_empty_conv image_iff)

lemma lookup_ORTH_eq:
  "lookup_ORTH (gene_class_chains thr pp res) g = chains_where (\<lambda>p. p \<noteq> - 1 \<and> \<not> p < thr) res g"
  by (cases "g \<in> fst ` set res")
     (simp_all add: lookup_ORTH_def map_of_gene_class_chains map_of_gene_class_chains_None
        chains_where_absent)

lemma lookup_PARA_eq:
  "lookup_PARA (gene_class_chains thr pp res) g = chains_where (\<lambda>p. p \<noteq> - 1 \<and> p < thr) res g"
  by (cases "g \<in> fst ` set res")
     (simp_all add: lookup_PARA_def map_of_gene_class_chains map_of_gene_class_chains_None
        chains_where_absent)

lemma chains_where_rescore:
  "chains_where (\<lambda>p. p \<noteq> - 1 \<and> P p) (rescore_rows res) g = chains_where (\<lambda>p. p \<noteq> - 1 \<and> P p) res g"
  unfolding chains_where_def rescore_rows_def filter_filter
  by (rule arg_cong[where f = "map _"], rule filter_cong) auto

subsection \<open>The example tables, evaluated\<close>

lemmas demo_defs = demo_table_def full_header_def row_pp_def row_se_def row_trans_def
  required_columns_def

lemmas run_defs = classify_chains_def check_columns_def key_def attr_def
  p_pseudogenes_def is_p_pseudogene_def trans_lines_def drop_p_pseudogenes_def
  classify_frame_def overall_result_def df_se_def df_me_def df_final_def hard_filter_def
  gene_class_chains_def init_class_chains_def genes_of_def given_def genes_missing_def
  init_genes_def derive_def scored_def trans_result_def class_step_def place_def
  empty_classes_def gene_to_pp_genes_def append_chain_def reason_def
  annot_threshold_default_def is_scored_def is_trans_def

lemma demo_run:
  "classify_chains demo_table (\<lambda>_. 0.5) (\<lambda>_. 0.2) (Some ''raw'') (Some ''rej'') annot_threshold_default =
     Inr \<lparr> class_table = [(''G1'', \<lparr> ORTH = [3], PARA = [], TRANS = [], P_PGENES = [1] \<rparr>),
                          (''G2'', \<lparr> ORTH = [], PARA = [], TRANS = [2], P_PGENES = [] \<rparr>)],
           raw_scores = Some [(''G1'', 3, 0.5), (''G2'', 2, - 1)],
           rejected_log = Some [] \<rparr>"
  by (simp add: demo_defs run_defs)

lemma demo_run':
  "classify_chains demo_table (\<lambda>_. 0.5) (\<lambda>_. 0.2) (Some ''raw'') (Some ''rej'') annot_threshold_default =
     Inr demo_out"
  unfolding demo_out_def by (rule demo_run)

lemma pp_only_run:
  "classify_chains pp_only_table (\<lambda>_. 0.5) (\<lambda>_. 0.2) (Some ''raw'') (Some ''rej'') annot_threshold_default =
     Inr pp_only_out"
  by (simp add: pp_only_out_def pp_only_table_def demo_defs run_defs)

lemma demo_cols: "set required_columns \<subseteq> set (header demo_table)"
  by (simp add: demo_defs)

lemma pp_only_cols: "set required_columns \<subseteq> set (header pp_only_table)"
  by (simp add: pp_only_table_def demo_defs)

lemma demo_lines:
  "class_table_lines demo_out =
     [str_join tab [''GENE'', ''ORTH'', ''PARA'', ''TRANS'', ''P_PGENES''],
      str_join tab [''G1'', ''3'', ''0'', ''0'', ''1''],
      str_join tab [''G2'', ''0'', ''0'', ''2'', ''0'']]"
  by (simp add: class_table_lines_def class_table_line_def chains_field_def demo_out_def
        string_of_int_def string_of_nat.simps digit_char_def)

section \<open>Properties of the job bucketer\<close>

lemma concat_pushed:
  "0 \<notin> set buckets \<Longrightarrow>
   concat (map snd (pushed_joblists jobs buckets)) = concat (map (grep_bucket jobs) buckets)"
  by (induction buckets)
     (auto simp: pushed_joblists_def List.map_filter_simps bucket_joblist_def split: list.splits)

lemma mset_concat_filter_Cons:
  "mset (concat (map (\<lambda>b. filter (m b) (l # js)) bs)) =
     mset (concat (map (\<lambda>b. filter (m b) js) bs)) + replicate_mset (length (filter (\<lambda>b. m b l) bs)) l"
  by (induction bs) auto

lemma filter_none: "(\<And>y. y \<in> set xs \<Longrightarrow> \<not> P y) \<Longrightarrow> filter P xs = []"
  by (induction xs) simp_all

lemma filter_unique:
  "distinct bs \<Longrightarrow> b \<in> set bs \<Longrightarrow> P b \<Longrightarrow> (\<And>b'. b' \<in> set bs \<Longrightarrow> P b' \<Longrightarrow> b' = b) \<Longrightarrow> filter P bs = [b]"
proof (induction bs)
  case Nil
  from Nil(2) show ?case by simp
next
  case (Cons x xs)
  show ?case
  proof (cases "x = b")
    case True
    have nb: "b \<notin> set xs" using Cons.prems(1) unfolding True by simp
    have "\<not> P y" if "y \<in> set xs" for y
    proof
      assume "P y"
      then have "y = b" using Cons.prems(4)[of y] that by simp
      then show False using nb that by simp
    qed
    then have "filter P xs = []" by (rule filter_none)
    then show ?thesis unfolding True using Cons.prems(3) by simp
  next
    case False
    have np: "\<not> P x"
    proof
      assume "P x"
      then have "x = b" using Cons.prems(4)[of x] by simp
      then show False using False by simp
    qed
    have bx: "b \<in> set xs" using Cons.prems(2) False by auto
    have dx: "distinct xs" using Cons.prems(1) by simp
    have "filter P xs = [b]"
    proof (rule Cons.IH[OF dx bx Cons.prems(3)])
      fix b' assume "b' \<in> set xs" "P b'"
      then show "b' = b" using Cons.prems(4)[of b'] by simp
    qed
    then show ?thesis using np by simp
  qed
qed


lemma length_filter_unique:
  assumes "distinct bs" "\<exists>!b. b \<in> set bs \<and> P b"
  shows "length (filter P bs) = 1"
proof -
  from assms(2) obtain b where b: "b \<in> set bs" "P b"
    and u: "\<And>b'. b' \<in> set bs \<Longrightarrow> P b' \<Longrightarrow> b' = b"
    by (elim ex1E conjE) blast
  have "filter P bs = [b]"
    using assms(1) b u by (rule filter_unique[where P = P and b = b and bs = bs])
  then show ?thesis by simp
qed

lemma mset_buckets_partition:
  assumes "distinct bs" "\<forall>l\<in>set js. \<exists>!b. b \<in> set bs \<and> m b l"
  shows "mset (concat (map (\<lambda>b. filter (m b) js) bs)) = mset js"
  using assms(2)
proof (induction js)
  case Nil
  show ?case by (induction bs) auto
next
  case (Cons l js)
  have "\<exists>!b. b \<in> set bs \<and> m b l"
    using Cons.prems by simp
  then have one: "length (filter (\<lambda>b. m b l) bs) = 1"
    using assms(1) by (rule length_filter_unique[rotated])
  have IH: "mset (concat (map (\<lambda>b. filter (m b) js) bs)) = mset js"
    using Cons by simp
  show ?case
    unfolding mset_concat_filter_Cons one IH by simp
qed

lemma grep_bucket_eq: "grep_bucket jobs = (\<lambda>b. filter (grep_line (bucket_pattern b)) jobs)"
  by (rule ext) (simp add: grep_bucket_def)

lemma s5: "string_of_int 5 = ''5''" by (simp add: string_of_int_def string_of_nat.simps digit_char_def)

lemma pat5: "bucket_pattern 5 = [Lit (CHR ''_''), Lit (CHR ''5''), Dot, Lit (CHR ''b''), Lit (CHR ''d''), Lit (CHR ''b'')]"
  by (simp add: bucket_pattern_def s5)

lemma s7: "string_of_int 7 = ''7''" by (simp add: string_of_int_def string_of_nat.simps digit_char_def)

lemma pat7: "bucket_pattern 7 = [Lit (CHR ''_''), Lit (CHR ''7''), Dot, Lit (CHR ''b''), Lit (CHR ''d''), Lit (CHR ''b'')]"
  by (simp add: bucket_pattern_def s7)

section \<open>Properties of the teardown\<close>

lemmas fs_defs = isfile_def isdir_def os_remove_def inside_def rmtree_def write_file_def
  entry_name_def listdir_def remove_temp_def die_def blank_line_def merge_dir_def then_merge_def
  merge_split_files_def List.map_filter_simps

lemma merge_exit:
  "merge_split_files demo_toga demo_fs =
     Inl (Exit [''Error! wd/inact_mut_data is empty''] 1 fs_after_merge_exit)"
  by (simp add: demo_toga_def demo_fs_def fs_after_merge_exit_def fs_defs)

lemma die_exit:
  "die demo_toga ''Error! Process died'' 1 fs_after_merge_exit =
     Exit [''Error! Process died'', ''Program finished with exit code 1''] 1
       [(''wd/genes_rejection_reason.tsv'', File [''G1 No classifiable chains'']),
        (''wd'', Dir), (''wd/inact_mut_data'', Dir), (''wd/cesar_results'', Dir)]"
  by (simp add: demo_toga_def fs_after_merge_exit_def fs_defs string_of_int_def string_of_nat.simps digit_char_def)

lemma map_of_filter_key:
  "map_of (filter (\<lambda>(q, n). P q) fs) k = (if P k then map_of fs k else None)"
  by (induction fs) auto

lemma remove_temp_gone: "map_of (remove_temp False fs t) t = None"
proof (cases "map_of fs t")
  case None
  then show ?thesis
    by (simp add: remove_temp_def isfile_def isdir_def)
next
  case (Some n)
  then show ?thesis
    by (cases n)
       (simp_all add: remove_temp_def isfile_def isdir_def os_remove_def rmtree_def inside_def
          map_of_filter_key)
qed

lemma remove_temp_absent: "map_of fs q = None \<Longrightarrow> map_of (remove_temp keep fs t) q = None"
  by (auto simp: remove_temp_def Let_def os_remove_def rmtree_def map_of_filter_key)

lemma foldl_remove_temp_absent:
  "map_of fs q = None \<Longrightarrow> map_of (foldl (remove_temp keep) fs ts) q = None"
  by (induction ts arbitrary: fs) (simp_all add: remove_temp_absent)

lemma foldl_remove_temp_gone:
  "t \<in> set ts \<Longrightarrow> map_of (foldl (remove_temp False) fs ts) t = None"
proof (induction ts arbitrary: fs)
  case Nil
  then show ?case by simp
next
  case (Cons x ts)
  show ?case
  proof (cases "t = x")
    case True
    then show ?thesis
      by (simp add: foldl_remove_temp_absent remove_temp_gone)
  next
    case False
    then have "t \<in> set ts" using Cons.prems by simp
    then show ?thesis by (simp add: Cons.IH)
  qed
qed

text \<open>
  What \<open>die\<close> guarantees: unless the temporary files are kept, no registered path is
  left, file or directory, and the exit status is the one given.
\<close>

lemma die_removes_temp_files:
  assumes "\<not> keep_temp self" and "t \<in> set (temp_files self)"
  shows "\<exists>err fs'. die self msg rc fs = Exit err rc fs' \<and> map_of fs' t = None"
  using assms by (simp add: die_def foldl_remove_temp_gone)

section \<open>The claims\<close>

subsection \<open>Processed pseudogenes\<close>




subsection \<open>Derived features\<close>

text \<open>
  C2, as the code has it. For every line that survives the hard filter, the
  exon-coverage percentage is \<open>exon_cover / ex_fract\<close> and the intron-coverage
  percentage is \<open>intr_cover / intr_fract\<close> where the divisor is not zero. No error is
  raised. Only NaN is replaced with 0.0: zero divided by zero, and the logarithm of a
  negative number. A non-zero value divided by zero stays infinite, and the logarithm of
  zero stays minus infinity. A surviving line has \<open>exon_cover > 0\<close>, so with
  \<open>ex_fract = 0\<close> its exon-coverage percentage is plus infinity.
\<close>

theorem derived_features:
  assumes "f \<in> set (df_final df)"
  shows "base f \<in> set (hard_filter df) \<and> 0 < exon_cover (base f) \<and> 0 < synt (base f) \<and>
         exon_perc f =
           (if ex_fract (base f) \<noteq> 0 then Fin (exon_cover (base f) / ex_fract (base f)) else PInf) \<and>
         intr_perc f =
           (if intr_fract (base f) \<noteq> 0 then Fin (intr_cover (base f) / intr_fract (base f))
            else if 0 < intr_cover (base f) then PInf
            else if intr_cover (base f) < 0 then NInf
            else Fin 0) \<and>
         synt_log f = Fin (log 10 (real_of_int (synt (base f)))) \<and>
         chain_len_log f =
           (if 0 < chain_len (base f) then Fin (log 10 (chain_len (base f)))
            else if chain_len (base f) = 0 then NInf
            else Fin 0)"
proof -
  obtain r where r: "r \<in> set (hard_filter df)" and f: "f = derive r"
    using assms by (auto simp: df_final_def)
  have pos: "0 < exon_cover r" "0 < synt r"
    using r by (auto simp: hard_filter_def)
  show ?thesis
    unfolding f using r pos
    by (simp add: derive_def np_div_def log10_def)
qed

text \<open>
  C2 on the example table: the scored line of G1 has \<open>exon_cover = 50\<close>,
  \<open>ex_fract = 100\<close> and no intron (0 / 0), which gives 1/2 and 0.0.
\<close>

theorem derived_features_witness:
  "derive row_se \<in> set (df_final (body demo_table)) \<and>
   exon_perc (derive row_se) = Fin (1 / 2) \<and> intr_perc (derive row_se) = Fin 0"
proof -
  have f: "derive row_se \<in> set (df_final (body demo_table))"
    by (simp add: demo_defs run_defs)
  show ?thesis
    using f derived_features[OF f] by (simp add: row_se_def)
qed

text \<open>
  C2 as stated fails at a surviving line with \<open>ex_fract = 0\<close>: with \<open>exon_cover = 10\<close>
  the exon-coverage percentage is plus infinity, not 0.0; with \<open>chain_len = 0\<close> the
  logarithm stays minus infinity.
\<close>

theorem zero_divisor_counterexample:
  "hard_filter [row_zero_fract] = [row_zero_fract] \<and> ex_fract row_zero_fract = 0 \<and>
   map exon_perc (df_final [row_zero_fract]) = [PInf] \<and>
   map chain_len_log (df_final [row_zero_fract]) = [NInf]"
  by (simp add: row_zero_fract_def hard_filter_def drop_p_pseudogenes_def is_p_pseudogene_def
                df_final_def derive_def np_div_def log10_def)

subsection \<open>Class table and rejected log\<close>

text \<open>
  C3. When a path for the rejected log is given, every gene of the input table is either
  a row of the class table or a line of the rejected log, never both and never neither,
  and every line of the log carries the fixed reason.
\<close>

theorem every_gene_in_one_output:
  assumes "set required_columns \<subseteq> set (header t)"
      and "given rejected"
  shows "\<exists>out L. classify_chains t se_model me_model raw_out rejected thr = Inr out \<and>
           rejected_log out = Some L \<and>
           (\<forall>g\<in>gene ` set (body t). (g \<in> fst ` set (class_table out)) \<noteq> (g \<in> fst ` set L)) \<and>
           (\<forall>l\<in>set L. snd l = reason)"
proof -
  let ?res = "overall_result (body t) se_model me_model"
  let ?out = "classify_frame (body t) se_model me_model raw_out rejected thr"
  let ?L = "map (\<lambda>g. (g, reason)) (genes_missing (body t) ?res)"
  have run: "classify_chains t se_model me_model raw_out rejected thr = Inr ?out"
    using assms(1) by (rule classify_chains_ok)
  have log: "rejected_log ?out = Some ?L"
    using assms(2) by (simp add: classify_frame_def Let_def)
  have keys: "fst ` set (class_table ?out) = fst ` set ?res"
    using keys_gene_class_chains[of thr "gene_to_pp_genes (body t)" ?res]
    by (metis class_table_frame set_genes_of set_map)
  have missing: "fst ` set ?L = gene ` set (body t) - fst ` set ?res"
    by (auto simp: genes_missing_def init_genes_def set_genes_of image_iff)
  have "(g \<in> fst ` set (class_table ?out)) \<noteq> (g \<in> fst ` set ?L)" if "g \<in> gene ` set (body t)" for g
    using that unfolding keys missing by blast
  moreover have "\<forall>l\<in>set ?L. snd l = reason"
    by auto
  ultimately show ?thesis
    using run log by blast
qed

text \<open>
  C3 on the table whose only line is a pseudogene line of G1: G1 is not in the class
  table and is in the rejected log with the reason.
\<close>

theorem every_gene_in_one_output_witness:
  "set required_columns \<subseteq> set (header pp_only_table) \<and> given (Some ''rej'') \<and>
   ''G1'' \<in> gene ` set (body pp_only_table) \<and>
   (\<exists>L. rejected_log pp_only_out = Some L \<and>
        ''G1'' \<notin> fst ` set (class_table pp_only_out) \<and> (''G1'', reason) \<in> set L)"
proof -
  have rej: "given (Some ''rej'')"
    by (simp add: given_def)
  have g: "''G1'' \<in> gene ` set (body pp_only_table)"
    by (simp add: pp_only_table_def demo_defs)
  obtain L where L: "rejected_log pp_only_out = Some L"
    and one: "(''G1'' \<in> fst ` set (class_table pp_only_out)) \<noteq> (''G1'' \<in> fst ` set L)"
    and why: "\<forall>l\<in>set L. snd l = reason"
    using every_gene_in_one_output[OF pp_only_cols rej, of "\<lambda>_. 0.5" "\<lambda>_. 0.2" "Some ''raw''"
            annot_threshold_default] g
    unfolding pp_only_run by auto
  have absent: "''G1'' \<notin> fst ` set (class_table pp_only_out)"
    by (simp add: pp_only_out_def)
  then have "(''G1'', reason) \<in> set L"
    using one why by force
  then show ?thesis
    using pp_only_cols rej g L absent by blast
qed

subsection \<open>Trans chains\<close>



subsection \<open>The decision threshold\<close>

text \<open>
  C5. A line scored by a model, with a score \<open>p\<close> in [0, 1], is listed under \<open>PARA\<close>
  when \<open>p\<close> is below the threshold and under \<open>ORTH\<close> when \<open>p\<close> is at least the
  threshold.
\<close>

theorem threshold_decides_class:
  assumes "set required_columns \<subseteq> set (header t)"
      and "f \<in> set (df_se (body t)) \<and> p = se_model (X_se f) \<or>
           f \<in> set (df_me (body t)) \<and> p = me_model (X_me f)"
      and "0 \<le> p" and "p \<le> 1"
  shows "\<exists>out v. classify_chains t se_model me_model raw_out rejected thr = Inr out \<and>
           map_of (class_table out) (gene (base f)) = Some v \<and>
           (p < thr \<longrightarrow> chain_id (base f) \<in> set (PARA v)) \<and>
           (thr \<le> p \<longrightarrow> chain_id (base f) \<in> set (ORTH v))"
proof -
  let ?out = "classify_frame (body t) se_model me_model raw_out rejected thr"
  have run: "classify_chains t se_model me_model raw_out rejected thr = Inr ?out"
    using assms(1) by (rule classify_chains_ok)
  obtain r where r: "r \<in> set (body t)" "is_scored r" "f = derive r"
    and p: "p = pred_of se_model me_model r"
    using assms(2) by (auto simp: df_se_eq df_me_eq set_hard_filter pred_of_def)
  obtain v where v: "map_of (class_table ?out) (gene r) = Some v"
    using class_table_has_row[of r "body t"] r by blast
  have "p \<noteq> - 1" using assms(3) by simp
  then have "(p < thr \<longrightarrow> chain_id r \<in> set (PARA v)) \<and> (thr \<le> p \<longrightarrow> chain_id r \<in> set (ORTH v))"
    using r p by (auto simp: class_table_lists(1,2)[OF v])
  then show ?thesis
    using run v r(3) by auto
qed

text \<open>
  C5 at the boundary: a single-exon line with model output 0.5 and the default threshold
  0.5 is listed under \<open>ORTH\<close>.
\<close>

theorem threshold_decides_class_witness:
  "set required_columns \<subseteq> set (header demo_table) \<and>
   derive row_se \<in> set (df_se (body demo_table)) \<and> (0::real) \<le> 0.5 \<and> (0.5::real) \<le> 1 \<and>
   annot_threshold_default = 0.5 \<and>
   (\<exists>v. map_of (class_table demo_out) (gene row_se) = Some v \<and> chain_id row_se \<in> set (ORTH v))"
proof -
  have f: "derive row_se \<in> set (df_se (body demo_table))"
    by (simp add: demo_defs run_defs)
  have "\<exists>out v. classify_chains demo_table (\<lambda>_. 0.5) (\<lambda>_. 0.2) (Some ''raw'') (Some ''rej'')
                annot_threshold_default = Inr out \<and>
            map_of (class_table out) (gene (base (derive row_se))) = Some v \<and>
            (0.5 < annot_threshold_default \<longrightarrow> chain_id (base (derive row_se)) \<in> set (PARA v)) \<and>
            (annot_threshold_default \<le> 0.5 \<longrightarrow> chain_id (base (derive row_se)) \<in> set (ORTH v))"
    by (rule threshold_decides_class[OF demo_cols]) (use f in simp_all)
  then have "\<exists>v. map_of (class_table demo_out) (gene row_se) = Some v \<and> chain_id row_se \<in> set (ORTH v)"
    unfolding demo_run' by (auto simp: annot_threshold_default_def)
  then show ?thesis
    using demo_cols f by (simp add: annot_threshold_default_def)
qed

subsection \<open>One list per chain\<close>

text \<open>
  C8. When no two lines of the input table have the same gene and chain, the four lists
  of every row of the class table are pairwise disjoint.
\<close>

theorem chain_in_one_list:
  assumes "set required_columns \<subseteq> set (header t)"
      and "distinct (map (\<lambda>r. (gene r, chain_id r)) (body t))"
  shows "\<exists>out. classify_chains t se_model me_model raw_out rejected thr = Inr out \<and>
           (\<forall>(g, v)\<in>set (class_table out).
              set (ORTH v) \<inter> set (PARA v) = {} \<and> set (ORTH v) \<inter> set (TRANS v) = {} \<and>
              set (ORTH v) \<inter> set (P_PGENES v) = {} \<and> set (PARA v) \<inter> set (TRANS v) = {} \<and>
              set (PARA v) \<inter> set (P_PGENES v) = {} \<and> set (TRANS v) \<inter> set (P_PGENES v) = {})"
proof -
  let ?out = "classify_frame (body t) se_model me_model raw_out rejected thr"
  have run: "classify_chains t se_model me_model raw_out rejected thr = Inr ?out"
    using assms(1) by (rule classify_chains_ok)
  have inj: "inj_on (\<lambda>r. (gene r, chain_id r)) (set (body t))"
    using assms(2) by (simp add: distinct_map)
  have same: "r1 = r2"
    if "r1 \<in> set (body t)" "r2 \<in> set (body t)" "gene r1 = gene r2" "chain_id r1 = chain_id r2"
    for r1 r2
    using inj that by (auto dest: inj_onD)
  have dk: "distinct (map fst (class_table ?out))"
    by (simp add: class_table_frame keys_gene_class_chains genes_of_def)
  have "set (ORTH v) \<inter> set (PARA v) = {} \<and> set (ORTH v) \<inter> set (TRANS v) = {} \<and>
        set (ORTH v) \<inter> set (P_PGENES v) = {} \<and> set (PARA v) \<inter> set (TRANS v) = {} \<and>
        set (PARA v) \<inter> set (P_PGENES v) = {} \<and> set (TRANS v) \<inter> set (P_PGENES v) = {}"
    if gv: "(g, v) \<in> set (class_table ?out)" for g v
  proof -
    have v: "map_of (class_table ?out) g = Some v"
      using dk gv by simp
    note L = class_table_lists[OF v]
    have "set (ORTH v) \<inter> set (PARA v) = {}"
      by (rule disjoint_by_rows[OF same L(1) L(2)]) auto
    moreover have "set (ORTH v) \<inter> set (TRANS v) = {}"
      by (rule disjoint_by_rows[OF same L(1) L(3)]) (use kinds_exclusive in auto)
    moreover have "set (ORTH v) \<inter> set (P_PGENES v) = {}"
      by (rule disjoint_by_rows[OF same L(1) L(4)]) (use kinds_exclusive in auto)
    moreover have "set (PARA v) \<inter> set (TRANS v) = {}"
      by (rule disjoint_by_rows[OF same L(2) L(3)]) (use kinds_exclusive in auto)
    moreover have "set (PARA v) \<inter> set (P_PGENES v) = {}"
      by (rule disjoint_by_rows[OF same L(2) L(4)]) (use kinds_exclusive in auto)
    moreover have "set (TRANS v) \<inter> set (P_PGENES v) = {}"
      by (rule disjoint_by_rows[OF same L(3) L(4)]) (use kinds_exclusive in auto)
    ultimately show ?thesis by blast
  qed
  then show ?thesis
    using run by blast
qed

text \<open>C8 on the example table, whose three lines have three different chains.\<close>

theorem chain_in_one_list_witness:
  "set required_columns \<subseteq> set (header demo_table) \<and>
   distinct (map (\<lambda>r. (gene r, chain_id r)) (body demo_table)) \<and>
   (\<exists>v. (''G1'', v) \<in> set (class_table demo_out) \<and> ORTH v = [3] \<and> P_PGENES v = [1] \<and>
      set (ORTH v) \<inter> set (PARA v) = {} \<and> set (ORTH v) \<inter> set (TRANS v) = {} \<and>
      set (ORTH v) \<inter> set (P_PGENES v) = {} \<and> set (PARA v) \<inter> set (TRANS v) = {} \<and>
      set (PARA v) \<inter> set (P_PGENES v) = {} \<and> set (TRANS v) \<inter> set (P_PGENES v) = {})"
proof -
  have d: "distinct (map (\<lambda>r. (gene r, chain_id r)) (body demo_table))"
    by (simp add: demo_defs)
  let ?v = "\<lparr> ORTH = [3], PARA = [], TRANS = [], P_PGENES = [1] \<rparr>"
  have row: "(''G1'', ?v) \<in> set (class_table demo_out)"
    by (simp add: demo_out_def)
  have "\<forall>(g, v)\<in>set (class_table demo_out).
      set (ORTH v) \<inter> set (PARA v) = {} \<and> set (ORTH v) \<inter> set (TRANS v) = {} \<and>
      set (ORTH v) \<inter> set (P_PGENES v) = {} \<and> set (PARA v) \<inter> set (TRANS v) = {} \<and>
      set (PARA v) \<inter> set (P_PGENES v) = {} \<and> set (TRANS v) \<inter> set (P_PGENES v) = {}"
    using chain_in_one_list[OF demo_cols d, of "\<lambda>_. 0.5" "\<lambda>_. 0.2" "Some ''raw''" "Some ''rej''"
            annot_threshold_default]
    unfolding demo_run' by blast
  then have "set (ORTH ?v) \<inter> set (PARA ?v) = {} \<and> set (ORTH ?v) \<inter> set (TRANS ?v) = {} \<and>
      set (ORTH ?v) \<inter> set (P_PGENES ?v) = {} \<and> set (PARA ?v) \<inter> set (TRANS ?v) = {} \<and>
      set (PARA ?v) \<inter> set (P_PGENES ?v) = {} \<and> set (TRANS ?v) \<inter> set (P_PGENES ?v) = {}"
    using row by blast
  then show ?thesis
    using demo_cols d row by (intro conjI exI[of _ ?v]) simp_all
qed

subsection \<open>Running on the raw scores again\<close>

text \<open>
  C9, as the code has it. The thresholding and grouping loop of \<open>classify_chains\<close>,
  applied with the same threshold to the raw-score lines of a run with \<open>pred\<close> other
  than \<open>-1\<close>, gives for every gene the same \<open>ORTH\<close> and \<open>PARA\<close> lists as the class
  table of the run (no list for a gene counts as the empty list). The pseudogene lists
  handed to the loop do not matter.
\<close>

theorem regrouping_raw_scores:
  assumes "classify_chains t se_model me_model raw_out rejected thr = Inr out"
      and "raw_scores out = Some rs"
  shows "lookup_ORTH (gene_class_chains thr pp (rescore_rows rs)) g = lookup_ORTH (class_table out) g \<and>
         lookup_PARA (gene_class_chains thr pp (rescore_rows rs)) g = lookup_PARA (class_table out) g"
proof -
  let ?res = "overall_result (body t) se_model me_model"
  have out: "out = classify_frame (body t) se_model me_model raw_out rejected thr"
    using assms(1) by (auto simp: classify_chains_def split: option.splits)
  have rs: "rs = ?res"
    using assms(2) unfolding out by (auto simp: classify_frame_def Let_def split: if_splits)
  have tab: "class_table out = gene_class_chains thr (gene_to_pp_genes (body t)) ?res"
    unfolding out by (rule class_table_frame)
  show ?thesis
    unfolding tab rs lookup_ORTH_eq lookup_PARA_eq
    using chains_where_rescore[of "\<lambda>p. \<not> p < thr" ?res g]
          chains_where_rescore[of "\<lambda>p. p < thr" ?res g]
    by simp
qed

text \<open>
  C9 on the example run: regrouping its raw scores gives \<open>ORTH = [3]\<close> for G1, as the
  class table has it.
\<close>

theorem regrouping_raw_scores_witness:
  "classify_chains demo_table (\<lambda>_. 0.5) (\<lambda>_. 0.2) (Some ''raw'') (Some ''rej'') annot_threshold_default =
     Inr demo_out \<and>
   raw_scores demo_out = Some demo_raw \<and>
   lookup_ORTH (gene_class_chains annot_threshold_default (\<lambda>_. []) (rescore_rows demo_raw)) ''G1'' = [3] \<and>
   lookup_ORTH (class_table demo_out) ''G1'' = [3]"
proof -
  have rs: "raw_scores demo_out = Some demo_raw"
    by (simp add: demo_out_def demo_raw_def)
  have tab: "lookup_ORTH (class_table demo_out) ''G1'' = [3]"
    by (simp add: demo_out_def lookup_ORTH_def)
  show ?thesis
    using regrouping_raw_scores[OF demo_run' rs, of "\<lambda>_. []" "''G1''"] demo_run' rs tab
    by simp
qed

text \<open>
  C9 as stated fails: the raw-score table of the example run, read as the input table of
  a second run, has no \<open>synt\<close> column, and the second run stops with \<open>KeyError\<close>
  before it writes anything.
\<close>

theorem rerun_counterexample:
  "classify_chains demo_table (\<lambda>_. 0.5) (\<lambda>_. 0.2) (Some ''raw'') (Some ''rej'') annot_threshold_default =
     Inr demo_out \<and>
   raw_scores demo_out = Some demo_raw \<and>
   classify_chains (raw_score_table demo_raw) (\<lambda>_. 0.5) (\<lambda>_. 0.2) (Some ''raw'') (Some ''rej'')
     annot_threshold_default = Inl (KeyError ''synt'')"
proof (intro conjI)
  show "classify_chains demo_table (\<lambda>_. 0.5) (\<lambda>_. 0.2) (Some ''raw'') (Some ''rej'') annot_threshold_default =
     Inr demo_out"
    by (rule demo_run')
  show "raw_scores demo_out = Some demo_raw"
    by (simp add: demo_out_def demo_raw_def)
  show "classify_chains (raw_score_table demo_raw) (\<lambda>_. 0.5) (\<lambda>_. 0.2) (Some ''raw'') (Some ''rej'')
     annot_threshold_default = Inl (KeyError ''synt'')"
    by (simp add: raw_score_table_def raw_header_def classify_chains_def check_columns_def key_def)
qed

subsection \<open>Bucketing\<close>

text \<open>
  C6, as the code has it. When the declared buckets are distinct and non-zero and every
  line of the job list matches the tag of exactly one declared bucket, the job lists
  pushed for the buckets hold together exactly the lines of the combined job list: no
  line is lost and none is pushed twice. Each bucket's list keeps the order of the
  combined list, and a bucket without a matching line is skipped.
\<close>

theorem buckets_partition_jobs:
  assumes "0 \<notin> set buckets" and "distinct buckets"
      and "\<forall>l\<in>set jobs. \<exists>!b. b \<in> set buckets \<and> grep_line (bucket_pattern b) l"
  shows "mset (concat (map snd (pushed_joblists jobs buckets))) = mset jobs"
  unfolding concat_pushed[OF assms(1)] grep_bucket_eq
  by (rule mset_buckets_partition[OF assms(2,3)])

text \<open>
  C6 on two job lines tagged for the buckets 5 and 7, with both buckets declared: each
  line matches the tag of one bucket only.
\<close>

theorem buckets_partition_jobs_witness:
  "(0::int) \<notin> set [5, 7] \<and> distinct [5, 7 :: int] \<and>
   filter (grep_line (bucket_pattern 5)) demo_jobs = [''cesar_runner.py job_1 out/job_1_5.bdb''] \<and>
   filter (grep_line (bucket_pattern 7)) demo_jobs = [''cesar_runner.py job_2 out/job_2_7.bdb''] \<and>
   mset (concat (map snd (pushed_joblists demo_jobs [5, 7]))) = mset demo_jobs"
proof -
  have z: "(0::int) \<notin> set [5, 7]" and d: "distinct [5, 7 :: int]"
    by simp_all
  have m5: "filter (grep_line (bucket_pattern 5)) demo_jobs = [''cesar_runner.py job_1 out/job_1_5.bdb'']"
    by (simp add: demo_jobs_def pat5)
  have m7: "filter (grep_line (bucket_pattern 7)) demo_jobs = [''cesar_runner.py job_2 out/job_2_7.bdb'']"
    by (simp add: demo_jobs_def pat7)
  have u: "\<forall>l\<in>set demo_jobs. \<exists>!b. b \<in> set [5, 7] \<and> grep_line (bucket_pattern b) l"
  proof
    fix l assume l: "l \<in> set demo_jobs"
    have in5: "grep_line (bucket_pattern 5) l \<longleftrightarrow> l = ''cesar_runner.py job_1 out/job_1_5.bdb''"
    proof -
      have "l \<in> set (filter (grep_line (bucket_pattern 5)) demo_jobs) \<longleftrightarrow>
              l = ''cesar_runner.py job_1 out/job_1_5.bdb''"
        unfolding m5 by simp
      then show ?thesis using l by simp
    qed
    have in7: "grep_line (bucket_pattern 7) l \<longleftrightarrow> l = ''cesar_runner.py job_2 out/job_2_7.bdb''"
    proof -
      have "l \<in> set (filter (grep_line (bucket_pattern 7)) demo_jobs) \<longleftrightarrow>
              l = ''cesar_runner.py job_2 out/job_2_7.bdb''"
        unfolding m7 by simp
      then show ?thesis using l by simp
    qed
    have cases: "l = ''cesar_runner.py job_1 out/job_1_5.bdb'' \<or> l = ''cesar_runner.py job_2 out/job_2_7.bdb''"
      using l by (simp add: demo_jobs_def)
    show "\<exists>!b. b \<in> set [5, 7] \<and> grep_line (bucket_pattern b) l"
    proof (rule disjE[OF cases])
      assume a: "l = ''cesar_runner.py job_1 out/job_1_5.bdb''"
      then have n7: "\<not> grep_line (bucket_pattern 7) l" unfolding in7 by simp
      show ?thesis
      proof (rule ex1I[of _ 5])
        show "5 \<in> set [5, 7 :: int] \<and> grep_line (bucket_pattern 5) l"
          using a in5 by simp
        fix b assume "b \<in> set [5, 7] \<and> grep_line (bucket_pattern b) l"
        then show "b = 5" using n7 by auto
      qed
    next
      assume a: "l = ''cesar_runner.py job_2 out/job_2_7.bdb''"
      then have n5: "\<not> grep_line (bucket_pattern 5) l" unfolding in5 by simp
      show ?thesis
      proof (rule ex1I[of _ 7])
        show "7 \<in> set [5, 7 :: int] \<and> grep_line (bucket_pattern 7) l"
          using a in7 by simp
        fix b assume "b \<in> set [5, 7] \<and> grep_line (bucket_pattern b) l"
        then show "b = 7" using n5 by auto
      qed
    qed
  qed
  show ?thesis
    using buckets_partition_jobs[OF z d u] z d m5 m7 by blast
qed

text \<open>
  C6 as stated fails. With the two job lines tagged for the buckets 5 and 7 and only
  bucket 5 declared, the tag of every declared bucket appears in the job list, and the
  line of bucket 7 is pushed with no bucket: it is lost. A line that carries two declared
  tags is pushed with both buckets.
\<close>

theorem bucket_union_counterexample:
  "grep_bucket demo_jobs 5 \<noteq> [] \<and>
   concat (map snd (pushed_joblists demo_jobs [5])) = [''cesar_runner.py job_1 out/job_1_5.bdb''] \<and>
   mset (concat (map snd (pushed_joblists demo_jobs [5]))) \<noteq> mset demo_jobs \<and>
   concat (map snd (pushed_joblists [''merge out/job_1_5.bdb out/job_2_7.bdb''] [5, 7])) =
     [''merge out/job_1_5.bdb out/job_2_7.bdb'', ''merge out/job_1_5.bdb out/job_2_7.bdb'']"
  by (simp add: pushed_joblists_def demo_jobs_def bucket_joblist_def grep_bucket_def pat5 pat7
        List.map_filter_simps)

subsection \<open>Teardown\<close>

text \<open>
  C7, where the code departs from it. The fatal paths that call \<open>die\<close> write the
  message, remove the registered temporary files and directories unless they are to be
  kept (\<open>die_removes_temp_files\<close>) and exit with the status given. \<open>__merge_dir\<close>
  does not call \<open>die\<close>: on an empty directory it ends the run through \<open>sys.exit\<close>.
  In the example state the directory of the gene loss data is empty when the last stage
  merges it: the run ends with a message and status 1, and the registered temporary file
  and directory are still there, although they are not to be kept. \<open>die\<close>, from the
  same state, removes both.
\<close>

theorem merge_dir_exit_skips_teardown:
  "merge_split_files demo_toga demo_fs =
     Inl (Exit [''Error! wd/inact_mut_data is empty''] 1 fs_after_merge_exit) \<and>
   \<not> keep_temp demo_toga \<and>
   temp_files demo_toga = [''wd/genome_alignment.chain'', ''wd/cesar_jobs''] \<and>
   isfile fs_after_merge_exit ''wd/genome_alignment.chain'' \<and>
   isdir fs_after_merge_exit ''wd/cesar_jobs'' \<and>
   die demo_toga ''Error! Process died'' 1 fs_after_merge_exit =
     Exit [''Error! Process died'', ''Program finished with exit code 1''] 1
       [(''wd/genes_rejection_reason.tsv'', File [''G1 No classifiable chains'']),
        (''wd'', Dir), (''wd/inact_mut_data'', Dir), (''wd/cesar_results'', Dir)]"
  using merge_exit die_exit
  by (simp add: demo_toga_def fs_after_merge_exit_def isfile_def isdir_def)

subsection \<open>The threshold the controller uses\<close>

text \<open>
  C10. Whatever the command line, the controller calls \<open>classify_chains\<close> without a
  threshold, so the default 0.5 decides between \<open>ORTH\<close> and \<open>PARA\<close>. The state that
  \<open>__init__\<close> builds does not depend on \<open>--min_score\<close>, and neither does the call.
\<close>

theorem controller_uses_default_threshold:
  "Toga_classify_chains (toga_init location project_dir a) t se_model me_model =
     classify_chains t se_model me_model
       (Some (path_join project_dir ''orthology_scores.tsv''))
       (Some (path_join (path_join project_dir ''rejected'') ''classify_chains_rejected.txt''))
       0.5 \<and>
   toga_init location project_dir (a\<lparr>min_score := m\<rparr>) = toga_init location project_dir a \<and>
   Toga_classify_chains (toga_init location project_dir (a\<lparr>min_score := m\<rparr>)) t se_model me_model =
     Toga_classify_chains (toga_init location project_dir a) t se_model me_model"
  by (simp add: Toga_classify_chains_def call_classify_chains_def toga_init_def
        annot_threshold_default_def Let_def)

end
